theory Spec2Isabelle
  imports Complex_Main "HOL-Library.Char_ord" "HOL-Library.List_Lexorder"
begin

section \<open>JavaScript values used by the client\<close>

text \<open>
  A JavaScript \<^verbatim>\<open>number\<close>. Finite values are idealised as reals (the rounding of
  IEEE binary64 is not modelled, and \<^verbatim>\<open>-0\<close> is \<^verbatim>\<open>0\<close>); the three special values are
  kept, because every comparison with \<^verbatim>\<open>NaN\<close> is false.
\<close>

datatype number = NaN | NegInfinity | Num real | PosInfinity

text \<open>\<^verbatim>\<open>x >= r\<close> for a number \<^verbatim>\<open>x\<close> and a finite literal \<^verbatim>\<open>r\<close>.\<close>

fun num_ge :: "number \<Rightarrow> real \<Rightarrow> bool" where
  "num_ge NaN r = False"
| "num_ge NegInfinity r = False"
| "num_ge (Num x) r = (r \<le> x)"
| "num_ge PosInfinity r = True"

section \<open>The builtin \<^verbatim>\<open>parseFloat\<close>\<close>

text \<open>
  ECMAScript's \<^verbatim>\<open>parseFloat\<close> on ASCII text: leading white space is skipped, the
  longest prefix that is a \<^verbatim>\<open>StrDecimalLiteral\<close> is read (an optional sign, then
  \<^verbatim>\<open>Infinity\<close>, or digits with an optional fraction and an optional exponent), and
  what follows is ignored; with no such prefix the result is \<^verbatim>\<open>NaN\<close>. The result is
  the exact decimal value of the prefix. JavaScript rounds that value to the nearest
  binary64, so that a text beyond about \<^verbatim>\<open>1.8e308\<close> reads as \<^verbatim>\<open>Infinity\<close> and one below
  about \<^verbatim>\<open>2.5e-324\<close> as \<^verbatim>\<open>0\<close>, and it also skips the white space beyond ASCII;
  neither is modelled, and a statement below that evaluates \<open>parseFloat\<close> does so on
  short decimal texts far from both ends.
\<close>

definition isWhiteSpace :: "char \<Rightarrow> bool" where
  "isWhiteSpace c = (c \<in> set [CHR 0x09, CHR 0x0A, CHR 0x0B, CHR 0x0C, CHR 0x0D, CHR 0x20])"

definition isDigit :: "char \<Rightarrow> bool" where
  "isDigit c = (c \<in> set ''0123456789'')"

definition digitValue :: "char \<Rightarrow> nat" where
  "digitValue c = of_char c - 48"

definition decimalValue :: "string \<Rightarrow> nat" where
  "decimalValue ds = foldl (\<lambda>a c. 10 * a + digitValue c) 0 ds"

text \<open>The sign of a literal and the text after it.\<close>

fun splitSign :: "string \<Rightarrow> bool \<times> string" where
  "splitSign (c # cs) =
     (if c = CHR ''-'' then (True, cs) else if c = CHR ''+'' then (False, cs) else (False, c # cs))"
| "splitSign [] = (False, [])"

text \<open>
  The \<^verbatim>\<open>ExponentPart\<close> at the head of a text, if a complete one stands there:
  \<^verbatim>\<open>e\<close> or \<^verbatim>\<open>E\<close>, an optional sign, and at least one digit.
\<close>

definition exponentPart :: "string \<Rightarrow> int" where
  "exponentPart t =
     (case t of
        [] \<Rightarrow> 0
      | c # cs \<Rightarrow>
          if c = CHR ''e'' \<or> c = CHR ''E'' then
            (let (neg, r) = splitSign cs; ds = takeWhile isDigit r
             in if ds = [] then 0
                else if neg then - int (decimalValue ds) else int (decimalValue ds))
          else 0)"

definition scale10 :: "real \<Rightarrow> int \<Rightarrow> real" where
  "scale10 x e = (if e < 0 then x / 10 ^ nat (- e) else x * 10 ^ nat e)"

definition parseFloat :: "string \<Rightarrow> number" where
  "parseFloat s =
     (let (neg, u) = splitSign (dropWhile isWhiteSpace s) in
      if take 8 u = ''Infinity'' then (if neg then NegInfinity else PosInfinity)
      else
        let ip = takeWhile isDigit u;
            r1 = dropWhile isDigit u;
            (fp, r2) = (case r1 of
                          [] \<Rightarrow> ([], r1)
                        | c # cs \<Rightarrow>
                            if c = CHR ''.'' then (takeWhile isDigit cs, dropWhile isDigit cs)
                            else ([], r1))
        in if ip = [] \<and> fp = [] then NaN
           else
             let m = scale10 (real (decimalValue (ip @ fp)) / 10 ^ length fp) (exponentPart r2)
             in Num (if neg then - m else m))"

section \<open>Supabase.ts: the rows of the backend's tables\<close>

text \<open>
  The unions of string literals of \<^verbatim>\<open>Incident\<close> and \<^verbatim>\<open>Alert\<close>. Each value is the
  string the source writes; \<open>status_literal\<close>, \<open>severity_literal\<close> and
  \<open>alert_type_literal\<close> give it.
\<close>

datatype severity = low | medium | high | critical

datatype incident_status = pending | verified | reported_to_saps | resolved

datatype alert_type = incident | hotspot | community

fun severity_literal :: "severity \<Rightarrow> string" where
  "severity_literal low = ''low''"
| "severity_literal medium = ''medium''"
| "severity_literal high = ''high''"
| "severity_literal critical = ''critical''"

fun status_literal :: "incident_status \<Rightarrow> string" where
  "status_literal pending = ''pending''"
| "status_literal verified = ''verified''"
| "status_literal reported_to_saps = ''reported_to_saps''"
| "status_literal resolved = ''resolved''"

fun alert_type_literal :: "alert_type \<Rightarrow> string" where
  "alert_type_literal incident = ''incident''"
| "alert_type_literal hotspot = ''hotspot''"
| "alert_type_literal community = ''community''"

text \<open>
  The object \<^verbatim>\<open>handleSubmit\<close> passes to \<^verbatim>\<open>insert\<close>: the columns of an incident the
  client supplies. \<^verbatim>\<open>location_address: locationAddress || null\<close> is an option.
\<close>

record incident_insert =
  reporter_id :: string
  type :: string
  description :: string
  location_lat :: number
  location_lng :: number
  location_address :: "string option"
  severity :: severity
  timestamp :: string
  status :: incident_status

text \<open>
  The type \<^verbatim>\<open>Incident\<close>: the supplied columns and the three the backend fills in
  (\<^verbatim>\<open>id\<close> is written \<open>id'\<close>).
\<close>

record Incident = incident_insert +
  id' :: string
  created_at :: string
  updated_at :: string

record Alert =
  id' :: string
  user_id :: string
  incident_id :: "string option"
  hotspot_id :: "string option"
  title :: string
  message :: string
  alert_type :: alert_type
  is_read :: bool
  created_at :: string

text \<open>The object \<^verbatim>\<open>handleCreateGroup\<close> inserts, and the row the backend returns for it.\<close>

record group_insert =
  name :: string
  description :: string
  location_lat :: number
  location_lng :: number
  coverage_radius_meters :: number
  created_by :: string

record NeighbourhoodWatchGroup = group_insert +
  id' :: string
  created_at :: string
  updated_at :: string

text \<open>A row of \<^verbatim>\<open>group_members\<close> as the client inserts it.\<close>

record group_member_insert =
  group_id :: string
  user_id :: string
  role :: string

text \<open>
  The backend's tables the client writes to. An accepted \<^verbatim>\<open>insert\<close> appends its row,
  an accepted \<^verbatim>\<open>update\<close> rewrites the rows its filters select; a refused request
  leaves the table as it was. What the backend answers to a request is an input of each
  operation below: \<open>None\<close> for no error, \<open>Some m\<close> for an error with message \<open>m\<close>.
\<close>

record backend =
  incidents_table :: "incident_insert list"
  alerts_table :: "Alert list"
  neighbourhood_watch_groups_table :: "NeighbourhoodWatchGroup list"
  group_members_table :: "group_member_insert list"

section \<open>IncidentReportForm.tsx\<close>

text \<open>The component's state: one field for each \<^verbatim>\<open>useState\<close>.\<close>

record IncidentReportForm =
  type :: string
  description :: string
  severity :: severity
  locationLat :: string
  locationLng :: string
  locationAddress :: string
  incidentDate :: string
  loading :: bool
  error :: string

text \<open>
  \<^verbatim>\<open>handleSubmit\<close>. \<open>userId\<close> is the component's prop, \<open>now\<close> is the value of
  \<^verbatim>\<open>new Date().toISOString().slice(0, 16)\<close> at the call, \<open>insertError\<close> is the backend's
  answer to the insert. \<^verbatim>\<open>!type\<close> on a string is \<^verbatim>\<open>type === ''\<close>.
\<close>

definition handleSubmit ::
  "string \<Rightarrow> string \<Rightarrow> string option \<Rightarrow> IncidentReportForm \<times> backend
     \<Rightarrow> IncidentReportForm \<times> backend" where
  "handleSubmit userId now insertError = (\<lambda>(s, db).
     if IncidentReportForm.type s = '''' \<or> IncidentReportForm.description s = ''''
        \<or> locationLat s = '''' \<or> locationLng s = ''''
     then (s\<lparr>error := ''Please fill in all required fields.''\<rparr>, db)
     else
       (case insertError of
          Some m \<Rightarrow>
            (s\<lparr>error := (if m = '''' then ''Failed to submit incident report.'' else m),
               loading := False\<rparr>, db)
        | None \<Rightarrow>
            (\<lparr>IncidentReportForm.type = '''', IncidentReportForm.description = '''',
              IncidentReportForm.severity = medium, locationLat = '''', locationLng = '''',
              locationAddress = '''', incidentDate = now, loading = False, error = ''''\<rparr>,
             db\<lparr>incidents_table := incidents_table db @
               [\<lparr>reporter_id = userId,
                 incident_insert.type = IncidentReportForm.type s,
                 incident_insert.description = IncidentReportForm.description s,
                 incident_insert.location_lat = parseFloat (locationLat s),
                 incident_insert.location_lng = parseFloat (locationLng s),
                 location_address =
                   (if locationAddress s = '''' then None else Some (locationAddress s)),
                 incident_insert.severity = IncidentReportForm.severity s,
                 timestamp = incidentDate s,
                 status = pending\<rparr>]\<rparr>)))"




text \<open>
  The valid ranges the spec gives a location (its section 3), for stating what the
  source does with them: a latitude in \<open>[-90, 90]\<close> and a longitude in \<open>[-180, 180]\<close>.
  No function of the source computes this.
\<close>

definition spec_validLocation :: "number \<Rightarrow> number \<Rightarrow> bool" where
  "spec_validLocation lat lng =
     (case (lat, lng) of
        (Num x, Num y) \<Rightarrow> - 90 \<le> x \<and> x \<le> 90 \<and> - 180 \<le> y \<and> y \<le> 180
      | _ \<Rightarrow> False)"

section \<open>HotspotMap.tsx: severity classification of a hotspot score\<close>

definition getSeverityColor :: "number \<Rightarrow> string" where
  "getSeverityColor score =
     (if num_ge score 8 then ''bg-red-500''
      else if num_ge score 5 then ''bg-orange-500''
      else if num_ge score 3 then ''bg-yellow-500''
      else ''bg-green-500'')"

definition getSeverityLabel :: "number \<Rightarrow> string" where
  "getSeverityLabel score =
     (if num_ge score 8 then ''Critical''
      else if num_ge score 5 then ''High''
      else if num_ge score 3 then ''Medium''
      else ''Low'')"

section \<open>Dashboard.tsx\<close>

record Stats =
  totalIncidents :: nat
  recentIncidents :: nat
  criticalIncidents :: nat
  resolvedIncidents :: nat

text \<open>The component's state: \<^verbatim>\<open>stats\<close>, \<^verbatim>\<open>recentIncidents\<close> and \<^verbatim>\<open>loading\<close>.\<close>

record Dashboard =
  stats :: Stats
  recentIncidents :: "Incident list"
  loading :: bool

text \<open>
  \<^verbatim>\<open>fetchDashboardData\<close>. \<open>allIncidents\<close> is the \<^verbatim>\<open>data\<close> the query answers with
  (\<open>None\<close> for \<^verbatim>\<open>null\<close> or a thrown error), \<open>now\<close> is \<^verbatim>\<open>new Date().getTime()\<close> in
  milliseconds, and \<open>dateValue\<close> is the builtin that reads a timestamp text,
  \<^verbatim>\<open>new Date(text).getTime()\<close>, with \<open>None\<close> for an invalid date, which no comparison
  accepts.
\<close>

definition fetchDashboardData ::
  "(string \<Rightarrow> int option) \<Rightarrow> int \<Rightarrow> Incident list option \<Rightarrow> Dashboard \<Rightarrow> Dashboard" where
  "fetchDashboardData dateValue now allIncidents s =
     (case allIncidents of
        None \<Rightarrow> s\<lparr>Dashboard.loading := False\<rparr>
      | Some xs \<Rightarrow>
          (let weekAgo = now - 7 * 24 * 60 * 60 * 1000;
               recentCount = length (filter
                 (\<lambda>i. case dateValue (timestamp i) of None \<Rightarrow> False | Some t \<Rightarrow> weekAgo \<le> t) xs);
               criticalCount = length (filter
                 (\<lambda>i. incident_insert.severity i = critical \<and> status i \<noteq> resolved) xs);
               resolvedCount = length (filter (\<lambda>i. status i = resolved) xs)
           in s\<lparr>stats := \<lparr>totalIncidents = length xs, Stats.recentIncidents = recentCount,
                            criticalIncidents = criticalCount,
                            resolvedIncidents = resolvedCount\<rparr>,
                 Dashboard.recentIncidents := take 10 xs,
                 Dashboard.loading := False\<rparr>))"

definition getStatusColor :: "string \<Rightarrow> string" where
  "getStatusColor st =
     (if st = ''resolved'' then ''bg-green-100 text-green-800''
      else if st = ''reported_to_saps'' then ''bg-blue-100 text-blue-800''
      else if st = ''verified'' then ''bg-purple-100 text-purple-800''
      else if st = ''pending'' then ''bg-yellow-100 text-yellow-800''
      else ''bg-gray-100 text-gray-800'')"

section \<open>AlertPanel.tsx\<close>

text \<open>The filter \<^verbatim>\<open>'all' | 'unread'\<close>, and the component's state (\<^verbatim>\<open>filter\<close> is \<open>filter'\<close>).\<close>

datatype alerts_filter = filter_all | filter_unread

record AlertsPanel =
  alerts :: "Alert list"
  loading :: bool
  filter' :: alerts_filter

text \<open>
  The query of \<^verbatim>\<open>fetchAlerts\<close>: the user's alerts, only the unread ones under the
  unread filter, the latest \<^verbatim>\<open>created_at\<close> first.
\<close>

definition alerts_query :: "string \<Rightarrow> alerts_filter \<Rightarrow> Alert list \<Rightarrow> Alert list" where
  "alerts_query userId flt table =
     rev (sort_key Alert.created_at
       (filter (\<lambda>a. Alert.user_id a = userId \<and> (if flt = filter_unread then is_read a = False else True))
          table))"

definition fetchAlerts :: "string \<Rightarrow> string option \<Rightarrow> backend \<Rightarrow> AlertsPanel \<Rightarrow> AlertsPanel" where
  "fetchAlerts userId queryError db s =
     (case queryError of
        Some m \<Rightarrow> s\<lparr>AlertsPanel.loading := False\<rparr>
      | None \<Rightarrow> s\<lparr>alerts := alerts_query userId (filter' s) (alerts_table db),
                  AlertsPanel.loading := False\<rparr>)"

definition markAsRead ::
  "string \<Rightarrow> string option \<Rightarrow> AlertsPanel \<times> backend \<Rightarrow> AlertsPanel \<times> backend" where
  "markAsRead alertId updateError = (\<lambda>(s, db).
     case updateError of
       Some m \<Rightarrow> (s, db)
     | None \<Rightarrow>
         (s\<lparr>alerts := map (\<lambda>alert. if Alert.id' alert = alertId then alert\<lparr>is_read := True\<rparr> else alert)
                         (alerts s)\<rparr>,
          db\<lparr>alerts_table :=
                map (\<lambda>alert. if Alert.id' alert = alertId then alert\<lparr>is_read := True\<rparr> else alert)
                  (alerts_table db)\<rparr>))"

text \<open>
  \<^verbatim>\<open>markAllAsRead\<close>: the update of the user's unread alerts, then \<^verbatim>\<open>fetchAlerts\<close>, whose
  query has an answer of its own.
\<close>

definition markAllAsRead ::
  "string \<Rightarrow> string option \<Rightarrow> string option \<Rightarrow> AlertsPanel \<times> backend \<Rightarrow> AlertsPanel \<times> backend" where
  "markAllAsRead userId updateError queryError = (\<lambda>(s, db).
     case updateError of
       Some m \<Rightarrow> (s, db)
     | None \<Rightarrow>
         (let db' = db\<lparr>alerts_table :=
                map (\<lambda>alert. if Alert.user_id alert = userId \<and> is_read alert = False
                              then alert\<lparr>is_read := True\<rparr> else alert)
                  (alerts_table db)\<rparr>
          in (fetchAlerts userId queryError db' s, db')))"

section \<open>NeighbourhoodWatch.tsx\<close>

record formData =
  name :: string
  description :: string
  location_lat :: string
  location_lng :: string
  coverage_radius_meters :: number

text \<open>
  The state the two handlers write: the form and whether it is shown. The list of groups
  is rewritten by \<^verbatim>\<open>fetchGroups\<close> alone, a read of the tables, which is left out here.
\<close>

record NeighbourhoodWatch =
  formData :: formData
  showCreateForm :: bool

text \<open>
  \<^verbatim>\<open>handleCreateGroup\<close>. The backend answers the first insert with an error or with
  the new row, of which it chooses \<^verbatim>\<open>id\<close>, \<^verbatim>\<open>created_at\<close> and \<^verbatim>\<open>updated_at\<close>; it
  answers the second with an error or none.
\<close>

definition handleCreateGroup ::
  "string \<Rightarrow> string + string \<times> string \<times> string \<Rightarrow> string option
     \<Rightarrow> NeighbourhoodWatch \<times> backend \<Rightarrow> NeighbourhoodWatch \<times> backend" where
  "handleCreateGroup userId groupReply memberError = (\<lambda>(s, db).
     case groupReply of
       Inl m \<Rightarrow> (s, db)
     | Inr (gid, created, updated) \<Rightarrow>
         (let newGroup =
                \<lparr>group_insert.name = formData.name (formData s),
                 group_insert.description = formData.description (formData s),
                 group_insert.location_lat = parseFloat (formData.location_lat (formData s)),
                 group_insert.location_lng = parseFloat (formData.location_lng (formData s)),
                 group_insert.coverage_radius_meters =
                   formData.coverage_radius_meters (formData s),
                 created_by = userId,
                 NeighbourhoodWatchGroup.id' = gid,
                 NeighbourhoodWatchGroup.created_at = created,
                 updated_at = updated\<rparr>;
              db1 = db\<lparr>neighbourhood_watch_groups_table :=
                         neighbourhood_watch_groups_table db @ [newGroup]\<rparr>
          in case memberError of
               Some m \<Rightarrow> (s, db1)
             | None \<Rightarrow>
                 (s\<lparr>formData := \<lparr>formData.name = '''', formData.description = '''',
                                   formData.location_lat = '''', formData.location_lng = '''',
                                   formData.coverage_radius_meters = Num 1000\<rparr>,
                    showCreateForm := False\<rparr>,
                  db1\<lparr>group_members_table := group_members_table db1 @
                        [\<lparr>group_id = NeighbourhoodWatchGroup.id' newGroup,
                          group_member_insert.user_id = userId,
                          role = ''admin''\<rparr>]\<rparr>)))"

definition handleJoinGroup ::
  "string \<Rightarrow> string \<Rightarrow> string option \<Rightarrow> NeighbourhoodWatch \<times> backend
     \<Rightarrow> NeighbourhoodWatch \<times> backend" where
  "handleJoinGroup userId groupId joinError = (\<lambda>(s, db).
     case joinError of
       Some m \<Rightarrow> (s, db)
     | None \<Rightarrow>
         (s, db\<lparr>group_members_table := group_members_table db @
                  [\<lparr>group_id = groupId, group_member_insert.user_id = userId,
                    role = ''member''\<rparr>]\<rparr>))"

section \<open>Example inputs\<close>

definition empty_backend :: backend where
  "empty_backend =
     \<lparr>incidents_table = [], alerts_table = [], neighbourhood_watch_groups_table = [],
      group_members_table = []\<rparr>"

definition example_form :: IncidentReportForm where
  "example_form =
     \<lparr>IncidentReportForm.type = ''Theft'', IncidentReportForm.description = ''Bag stolen'',
      IncidentReportForm.severity = high, locationLat = ''-26.2041'', locationLng = ''28.0473'',
      locationAddress = '''', incidentDate = ''2026-11-01T18:30'',
      IncidentReportForm.loading = False, error = ''''\<rparr>"

definition example_alert_1 :: Alert where
  "example_alert_1 =
     \<lparr>Alert.id' = ''a1'', Alert.user_id = ''user-1'', incident_id = Some ''i1'',
      hotspot_id = None, title = ''Theft nearby'', message = ''A theft was reported'',
      alert_type = incident, is_read = False, Alert.created_at = ''2026-11-01T18:31''\<rparr>"

definition example_alert_2 :: Alert where
  "example_alert_2 =
     \<lparr>Alert.id' = ''a2'', Alert.user_id = ''user-1'', incident_id = None,
      hotspot_id = Some ''h1'', title = ''New hotspot'', message = ''Risk is rising'',
      alert_type = hotspot, is_read = False, Alert.created_at = ''2026-11-02T08:00''\<rparr>"

definition example_alerts_panel :: AlertsPanel where
  "example_alerts_panel =
     \<lparr>alerts = [example_alert_2, example_alert_1], AlertsPanel.loading = False,
      filter' = filter_unread\<rparr>"

definition example_alerts_backend :: backend where
  "example_alerts_backend = empty_backend\<lparr>alerts_table := [example_alert_1, example_alert_2]\<rparr>"

section \<open>Hotspot severity classification\<close>

text \<open>
  C9. The classification of a hotspot score is total and splits the real scores at 8, 5
  and 3: for every real score \<open>s\<close>, also one below 0 or above 10, \<open>getSeverityLabel\<close>
  answers Critical exactly when \<open>8 \<le> s\<close>, High exactly when \<open>5 \<le> s < 8\<close>, Medium exactly
  when \<open>3 \<le> s < 5\<close> and Low exactly when \<open>s < 3\<close>, and \<open>getSeverityColor\<close> gives red,
  orange, yellow and green at the same thresholds.
\<close>

theorem severity_classification_thresholds:
  "(getSeverityLabel (Num s) = ''Critical'') = (8 \<le> s)
   \<and> (getSeverityLabel (Num s) = ''High'') = (5 \<le> s \<and> s < 8)
   \<and> (getSeverityLabel (Num s) = ''Medium'') = (3 \<le> s \<and> s < 5)
   \<and> (getSeverityLabel (Num s) = ''Low'') = (s < 3)
   \<and> (getSeverityColor (Num s) = ''bg-red-500'') = (8 \<le> s)
   \<and> (getSeverityColor (Num s) = ''bg-orange-500'') = (5 \<le> s \<and> s < 8)
   \<and> (getSeverityColor (Num s) = ''bg-yellow-500'') = (3 \<le> s \<and> s < 5)
   \<and> (getSeverityColor (Num s) = ''bg-green-500'') = (s < 3)"
  by (auto simp add: getSeverityLabel_def getSeverityColor_def)

section \<open>Dashboard statistics\<close>

lemma length_filter_disjoint:
  "(\<And>x. P x \<Longrightarrow> \<not> Q x) \<Longrightarrow> length (filter P xs) + length (filter Q xs) \<le> length xs"
  by (induction xs) auto

text \<open>
  C8. For every fetched list of incidents the statistics \<open>fetchDashboardData\<close> stores
  have \<open>totalIncidents\<close> the length of the list, each of \<open>recentIncidents\<close>,
  \<open>criticalIncidents\<close> and \<open>resolvedIncidents\<close> at most \<open>totalIncidents\<close>, and
  \<open>criticalIncidents + resolvedIncidents\<close> at most \<open>totalIncidents\<close>, since a critical
  incident is counted only when it is not resolved.
\<close>

theorem dashboard_stats_bounds:
  "totalIncidents (stats (fetchDashboardData dateValue now (Some xs) s)) = length xs
   \<and> Stats.recentIncidents (stats (fetchDashboardData dateValue now (Some xs) s))
       \<le> totalIncidents (stats (fetchDashboardData dateValue now (Some xs) s))
   \<and> criticalIncidents (stats (fetchDashboardData dateValue now (Some xs) s))
       \<le> totalIncidents (stats (fetchDashboardData dateValue now (Some xs) s))
   \<and> resolvedIncidents (stats (fetchDashboardData dateValue now (Some xs) s))
       \<le> totalIncidents (stats (fetchDashboardData dateValue now (Some xs) s))
   \<and> criticalIncidents (stats (fetchDashboardData dateValue now (Some xs) s))
        + resolvedIncidents (stats (fetchDashboardData dateValue now (Some xs) s))
       \<le> totalIncidents (stats (fetchDashboardData dateValue now (Some xs) s))"
proof -
  have "length (filter (\<lambda>i. incident_insert.severity i = critical \<and> status i \<noteq> resolved) xs)
          + length (filter (\<lambda>i. status i = resolved) xs) \<le> length xs"
    by (rule length_filter_disjoint) simp
  then show ?thesis
    by (simp add: fetchDashboardData_def Let_def)
qed

section \<open>Incident submission\<close>

lemma handleSubmit_accepted:
  "IncidentReportForm.type s \<noteq> '''' \<Longrightarrow> IncidentReportForm.description s \<noteq> ''''
   \<Longrightarrow> locationLat s \<noteq> '''' \<Longrightarrow> locationLng s \<noteq> ''''
   \<Longrightarrow> handleSubmit userId now None (s, db)
       = (\<lparr>IncidentReportForm.type = '''', IncidentReportForm.description = '''',
           IncidentReportForm.severity = medium, locationLat = '''', locationLng = '''',
           locationAddress = '''', incidentDate = now, loading = False, error = ''''\<rparr>,
          db\<lparr>incidents_table := incidents_table db @
            [\<lparr>reporter_id = userId,
              incident_insert.type = IncidentReportForm.type s,
              incident_insert.description = IncidentReportForm.description s,
              incident_insert.location_lat = parseFloat (locationLat s),
              incident_insert.location_lng = parseFloat (locationLng s),
              location_address =
                (if locationAddress s = '''' then None else Some (locationAddress s)),
              incident_insert.severity = IncidentReportForm.severity s,
              timestamp = incidentDate s,
              status = pending\<rparr>]\<rparr>)"
  by (simp add: handleSubmit_def)

lemmas parseFloat_eval =
  parseFloat_def isWhiteSpace_def isDigit_def decimalValue_def digitValue_def
  exponentPart_def scale10_def

lemma parseFloat_examples:
  "parseFloat ''-26.2041'' = Num (- 26.2041)"
  "parseFloat ''28.0473'' = Num 28.0473"
  "parseFloat ''91'' = Num 91"
  by (simp_all add: parseFloat_eval)

lemma example_form_fields:
  "IncidentReportForm.type example_form = ''Theft''"
  "IncidentReportForm.description example_form = ''Bag stolen''"
  "IncidentReportForm.severity example_form = high"
  "locationLat example_form = ''-26.2041''"
  "locationLng example_form = ''28.0473''"
  "locationAddress example_form = ''''"
  "incidentDate example_form = ''2026-11-01T18:30''"
  by (simp_all add: example_form_def)

text \<open>
  C1, as the spec states it, fails: a submission with latitude 91, outside
  \<open>[-90, 90]\<close>, raises no validation error and is inserted with that latitude.
\<close>

theorem latitude_out_of_range_inserted:
  "\<not> spec_validLocation (parseFloat ''91'') (parseFloat ''28.0473'')
   \<and> error (fst (handleSubmit ''user-1'' ''2026-11-02T09:06'' None
         (example_form\<lparr>locationLat := ''91''\<rparr>, empty_backend))) = ''''
   \<and> incidents_table (snd (handleSubmit ''user-1'' ''2026-11-02T09:06'' None
         (example_form\<lparr>locationLat := ''91''\<rparr>, empty_backend)))
       = [\<lparr>reporter_id = ''user-1'', incident_insert.type = ''Theft'',
           incident_insert.description = ''Bag stolen'',
           incident_insert.location_lat = Num 91,
           incident_insert.location_lng = Num 28.0473,
           location_address = None, incident_insert.severity = high,
           timestamp = ''2026-11-01T18:30'', status = pending\<rparr>]"
  by (simp add: handleSubmit_accepted example_form_fields parseFloat_examples
        spec_validLocation_def empty_backend_def)

text \<open>
  C1, amended. \<open>handleSubmit\<close> compares no coordinate with a range. A submission whose
  type, description, latitude text and longitude text are not empty raises no
  validation error, whatever numbers the two texts denote; when the backend accepts the
  insert, the new last row of the table carries \<open>parseFloat\<close> of the latitude text and
  of the longitude text, inside the ranges \<open>[-90, 90]\<close> and \<open>[-180, 180]\<close> or not.
\<close>

theorem handleSubmit_no_range_check:
  assumes "IncidentReportForm.type s \<noteq> ''''" and "IncidentReportForm.description s \<noteq> ''''"
    and "locationLat s \<noteq> ''''" and "locationLng s \<noteq> ''''"
  shows "error (fst (handleSubmit userId now None (s, db))) = ''''
    \<and> map incident_insert.location_lat (incidents_table (snd (handleSubmit userId now None (s, db))))
        = map incident_insert.location_lat (incidents_table db) @ [parseFloat (locationLat s)]
    \<and> map incident_insert.location_lng (incidents_table (snd (handleSubmit userId now None (s, db))))
        = map incident_insert.location_lng (incidents_table db) @ [parseFloat (locationLng s)]"
  using assms by (simp add: handleSubmit_accepted)

theorem handleSubmit_no_range_check_witness:
  "IncidentReportForm.type (example_form\<lparr>locationLng := ''-181.5''\<rparr>) \<noteq> ''''
   \<and> IncidentReportForm.description (example_form\<lparr>locationLng := ''-181.5''\<rparr>) \<noteq> ''''
   \<and> locationLat (example_form\<lparr>locationLng := ''-181.5''\<rparr>) \<noteq> ''''
   \<and> locationLng (example_form\<lparr>locationLng := ''-181.5''\<rparr>) \<noteq> ''''
   \<and> error (fst (handleSubmit ''user-1'' ''2026-11-02T09:06'' None
         (example_form\<lparr>locationLng := ''-181.5''\<rparr>, empty_backend))) = ''''
   \<and> map incident_insert.location_lng (incidents_table (snd (handleSubmit ''user-1''
         ''2026-11-02T09:06'' None (example_form\<lparr>locationLng := ''-181.5''\<rparr>, empty_backend))))
       = [parseFloat ''-181.5'']"
  using handleSubmit_no_range_check [of "example_form\<lparr>locationLng := ''-181.5''\<rparr>"
      "''user-1''" "''2026-11-02T09:06''" empty_backend]
  by (simp add: example_form_fields empty_backend_def)







text \<open>
  C4. For every submission that passes the validation of \<open>handleSubmit\<close> and that the
  backend accepts, the one row inserted has status \<open>pending\<close> and carries the reporter,
  the type, the description, the severity and the timestamp text of the form unchanged,
  the coordinates as \<open>parseFloat\<close> reads the two texts, and the address or \<^verbatim>\<open>null\<close>.
\<close>

theorem handleSubmit_inserts_pending:
  assumes "IncidentReportForm.type s \<noteq> ''''" and "IncidentReportForm.description s \<noteq> ''''"
    and "locationLat s \<noteq> ''''" and "locationLng s \<noteq> ''''"
  shows "incidents_table (snd (handleSubmit userId now None (s, db)))
    = incidents_table db @
        [\<lparr>reporter_id = userId,
          incident_insert.type = IncidentReportForm.type s,
          incident_insert.description = IncidentReportForm.description s,
          incident_insert.location_lat = parseFloat (locationLat s),
          incident_insert.location_lng = parseFloat (locationLng s),
          location_address =
            (if locationAddress s = '''' then None else Some (locationAddress s)),
          incident_insert.severity = IncidentReportForm.severity s,
          timestamp = incidentDate s,
          status = pending\<rparr>]"
  using assms by (simp add: handleSubmit_accepted)

theorem handleSubmit_inserts_pending_witness:
  "IncidentReportForm.type example_form \<noteq> '''' \<and> IncidentReportForm.description example_form \<noteq> ''''
   \<and> locationLat example_form \<noteq> '''' \<and> locationLng example_form \<noteq> ''''
   \<and> incidents_table (snd (handleSubmit ''user-1'' ''2026-11-02T09:06'' None
         (example_form, empty_backend)))
       = [\<lparr>reporter_id = ''user-1'', incident_insert.type = ''Theft'',
           incident_insert.description = ''Bag stolen'',
           incident_insert.location_lat = Num (- 26.2041),
           incident_insert.location_lng = Num 28.0473,
           location_address = None, incident_insert.severity = high,
           timestamp = ''2026-11-01T18:30'', status = pending\<rparr>]"
  using handleSubmit_inserts_pending
      [of example_form "''user-1''" "''2026-11-02T09:06''" empty_backend]
  by (simp add: example_form_fields empty_backend_def parseFloat_examples)

section \<open>Incident status\<close>

lemma incident_status_UNIV:
  "(UNIV :: incident_status set) = {pending, verified, reported_to_saps, resolved}"
  using incident_status.exhaust by auto

text \<open>
  C5, as the spec states it, fails: the fourth status of the source is the string
  \<^verbatim>\<open>reported_to_saps\<close>, which is none of pending, verified, reported, resolved; and
  \<^verbatim>\<open>reported\<close> is no status to \<open>getStatusColor\<close>, which gives it the default colour.
\<close>

theorem reported_to_saps_not_reported:
  "status_literal reported_to_saps \<notin> {''pending'', ''verified'', ''reported'', ''resolved''}
   \<and> getStatusColor (status_literal reported_to_saps) = ''bg-blue-100 text-blue-800''
   \<and> getStatusColor ''reported'' = ''bg-gray-100 text-gray-800''"
  by (simp add: getStatusColor_def)

text \<open>
  C5, amended. Every incident's status is one of exactly the four values pending,
  verified, reported_to_saps and resolved, each with a colour of its own in
  \<open>getStatusColor\<close>; and the client's reporting code never changes the status of an
  incident: \<open>fetchDashboardData\<close> shows the first ten fetched incidents as they are (or
  keeps the list it had), and \<open>handleSubmit\<close> leaves every row the table already held
  in place.
\<close>

theorem incident_status_four_values:
  "range status_literal = {''pending'', ''verified'', ''reported_to_saps'', ''resolved''}
   \<and> card (range status_literal) = 4
   \<and> getStatusColor (status_literal st) \<noteq> ''bg-gray-100 text-gray-800''
   \<and> Dashboard.recentIncidents (fetchDashboardData dateValue now (Some xs) d) = take 10 xs
   \<and> Dashboard.recentIncidents (fetchDashboardData dateValue now None d)
       = Dashboard.recentIncidents d
   \<and> take (length (incidents_table db))
         (incidents_table (snd (handleSubmit userId nowText insertError (s, db))))
       = incidents_table db"
proof -
  have "range status_literal = {''pending'', ''verified'', ''reported_to_saps'', ''resolved''}"
    by (simp add: incident_status_UNIV insert_commute)
  moreover have "card (range status_literal) = 4"
    by (simp add: incident_status_UNIV)
  moreover have "getStatusColor (status_literal st) \<noteq> ''bg-gray-100 text-gray-800''"
    by (cases st) (simp_all add: getStatusColor_def)
  moreover have "Dashboard.recentIncidents (fetchDashboardData dateValue now (Some xs) d) = take 10 xs"
    by (simp add: fetchDashboardData_def Let_def)
  moreover have "Dashboard.recentIncidents (fetchDashboardData dateValue now None d)
       = Dashboard.recentIncidents d"
    by (simp add: fetchDashboardData_def)
  moreover have "take (length (incidents_table db))
         (incidents_table (snd (handleSubmit userId nowText insertError (s, db))))
       = incidents_table db"
    by (simp add: handleSubmit_def split: option.split)
  ultimately show ?thesis by blast
qed

section \<open>Alerts\<close>

lemma map_mark_frame:
  "map (\<lambda>a. a\<lparr>is_read := False\<rparr>) (map (\<lambda>a. if P a then a\<lparr>is_read := True\<rparr> else a) xs)
     = map (\<lambda>a. a\<lparr>is_read := False\<rparr>) xs"
  by (induction xs) auto

lemma set_alerts_query: "set (alerts_query userId flt table) \<subseteq> set table"
  by (auto simp add: alerts_query_def)

lemma alerts_after_markAsRead:
  "alerts (fst (markAsRead alertId updateError (s, db)))
     = (case updateError of
          Some m \<Rightarrow> alerts s
        | None \<Rightarrow> map (\<lambda>a. if Alert.id' a = alertId then a\<lparr>is_read := True\<rparr> else a) (alerts s))"
  by (simp add: markAsRead_def split: option.split)

lemma table_after_markAsRead:
  "alerts_table (snd (markAsRead alertId updateError (s, db)))
     = (case updateError of
          Some m \<Rightarrow> alerts_table db
        | None \<Rightarrow> map (\<lambda>a. if Alert.id' a = alertId then a\<lparr>is_read := True\<rparr> else a)
                    (alerts_table db))"
  by (simp add: markAsRead_def split: option.split)

lemma table_after_markAllAsRead:
  "alerts_table (snd (markAllAsRead userId updateError queryError (s, db)))
     = (case updateError of
          Some m \<Rightarrow> alerts_table db
        | None \<Rightarrow> map (\<lambda>a. if Alert.user_id a = userId \<and> is_read a = False
                            then a\<lparr>is_read := True\<rparr> else a) (alerts_table db))"
  by (simp add: markAllAsRead_def Let_def split: option.split)

lemma alerts_after_markAllAsRead:
  "set (alerts (fst (markAllAsRead userId updateError queryError (s, db))))
     \<subseteq> set (alerts s) \<union> set (alerts_table (snd (markAllAsRead userId updateError queryError (s, db))))"
proof (cases updateError)
  case (Some m)
  then show ?thesis by (simp add: markAllAsRead_def)
next
  case None
  show ?thesis
  proof (cases queryError)
    case (Some m)
    with None show ?thesis by (simp add: markAllAsRead_def Let_def fetchAlerts_def)
  next
    case None': None
    let ?r = "markAllAsRead userId updateError queryError (s, db)"
    from \<open>updateError = None\<close> None'
    have "alerts (fst ?r) = alerts_query userId (filter' s) (alerts_table (snd ?r))"
      by (simp add: markAllAsRead_def Let_def fetchAlerts_def)
    then have "set (alerts (fst ?r)) \<subseteq> set (alerts_table (snd ?r))"
      by (simp only: set_alerts_query)
    then show ?thesis by blast
  qed
qed

text \<open>
  C6. Of an alert, \<open>markAsRead\<close> and \<open>markAllAsRead\<close> change the \<open>is_read\<close> flag and
  nothing else. After either, the backend's table holds the same rows in the same
  places, equal to the old ones once the flag is set aside. \<open>markAsRead\<close> does the same
  to the list the component shows, and an alert with another id than \<open>alertId\<close> is
  identical before and after, in the list and in the table. After \<open>markAllAsRead\<close>
  every alert shown is one that was shown before or a row of the table.
\<close>

theorem alerts_change_only_is_read:
  "map (\<lambda>a. a\<lparr>is_read := False\<rparr>) (alerts (fst (markAsRead alertId updateError (s, db))))
     = map (\<lambda>a. a\<lparr>is_read := False\<rparr>) (alerts s)
   \<and> map (\<lambda>a. a\<lparr>is_read := False\<rparr>) (alerts_table (snd (markAsRead alertId updateError (s, db))))
     = map (\<lambda>a. a\<lparr>is_read := False\<rparr>) (alerts_table db)
   \<and> (\<forall>i < length (alerts s). Alert.id' (alerts s ! i) \<noteq> alertId
        \<longrightarrow> alerts (fst (markAsRead alertId updateError (s, db))) ! i = alerts s ! i)
   \<and> (\<forall>i < length (alerts_table db). Alert.id' (alerts_table db ! i) \<noteq> alertId
        \<longrightarrow> alerts_table (snd (markAsRead alertId updateError (s, db))) ! i = alerts_table db ! i)
   \<and> map (\<lambda>a. a\<lparr>is_read := False\<rparr>)
        (alerts_table (snd (markAllAsRead userId updateError queryError (s, db))))
     = map (\<lambda>a. a\<lparr>is_read := False\<rparr>) (alerts_table db)
   \<and> set (alerts (fst (markAllAsRead userId updateError queryError (s, db))))
     \<subseteq> set (alerts s)
        \<union> set (alerts_table (snd (markAllAsRead userId updateError queryError (s, db))))"
proof -
  have "map (\<lambda>a. a\<lparr>is_read := False\<rparr>) (alerts (fst (markAsRead alertId updateError (s, db))))
     = map (\<lambda>a. a\<lparr>is_read := False\<rparr>) (alerts s)"
    by (simp add: alerts_after_markAsRead map_mark_frame split: option.split)
  moreover
  have "map (\<lambda>a. a\<lparr>is_read := False\<rparr>) (alerts_table (snd (markAsRead alertId updateError (s, db))))
     = map (\<lambda>a. a\<lparr>is_read := False\<rparr>) (alerts_table db)"
    by (simp add: table_after_markAsRead map_mark_frame split: option.split)
  moreover
  have "\<forall>i < length (alerts s). Alert.id' (alerts s ! i) \<noteq> alertId
        \<longrightarrow> alerts (fst (markAsRead alertId updateError (s, db))) ! i = alerts s ! i"
    by (simp add: alerts_after_markAsRead split: option.split)
  moreover
  have "\<forall>i < length (alerts_table db). Alert.id' (alerts_table db ! i) \<noteq> alertId
        \<longrightarrow> alerts_table (snd (markAsRead alertId updateError (s, db))) ! i = alerts_table db ! i"
    by (simp add: table_after_markAsRead split: option.split)
  moreover
  have "map (\<lambda>a. a\<lparr>is_read := False\<rparr>)
        (alerts_table (snd (markAllAsRead userId updateError queryError (s, db))))
     = map (\<lambda>a. a\<lparr>is_read := False\<rparr>) (alerts_table db)"
    by (simp add: table_after_markAllAsRead map_mark_frame split: option.split)
  moreover note alerts_after_markAllAsRead [of userId updateError queryError s db]
  ultimately show ?thesis by blast
qed

theorem alerts_change_only_is_read_witness:
  "1 < length (alerts example_alerts_panel)
   \<and> Alert.id' (alerts example_alerts_panel ! 1) \<noteq> ''a2''
   \<and> alerts (fst (markAsRead ''a2'' None (example_alerts_panel, example_alerts_backend))) ! 1
       = example_alert_1
   \<and> 0 < length (alerts_table example_alerts_backend)
   \<and> Alert.id' (alerts_table example_alerts_backend ! 0) \<noteq> ''a2''
   \<and> alerts_table (snd (markAsRead ''a2'' None (example_alerts_panel, example_alerts_backend))) ! 0
       = example_alert_1"
  using alerts_change_only_is_read
      [of "''a2''" None example_alerts_panel example_alerts_backend "''user-1''" None]
  by (simp add: example_alerts_panel_def example_alerts_backend_def example_alert_1_def
        example_alert_2_def)

section \<open>Neighbourhood watch groups\<close>

text \<open>
  C10. When \<open>handleCreateGroup\<close> succeeds (the backend accepts the new group and the
  membership), the group it has stored is the last row of the groups table, created by
  the user, and the one row added to \<open>group_members\<close> makes the user a member of that
  group with role \<^verbatim>\<open>admin\<close>. Whatever the backend answers, the only row
  \<open>handleCreateGroup\<close> can add to \<open>group_members\<close> is that one. Joining a group through
  \<open>handleJoinGroup\<close> adds the user to the group named with role \<^verbatim>\<open>member\<close> when the
  backend accepts, and adds nothing when it does not.
\<close>

theorem group_creator_admin_joiner_member:
  "group_members_table (snd (handleCreateGroup userId (Inr (gid, created, updated)) None (s, db)))
     = group_members_table db @
         [\<lparr>group_id = gid, group_member_insert.user_id = userId, role = ''admin''\<rparr>]
   \<and> map (\<lambda>g. (NeighbourhoodWatchGroup.id' g, created_by g))
        (neighbourhood_watch_groups_table
          (snd (handleCreateGroup userId (Inr (gid, created, updated)) None (s, db))))
     = map (\<lambda>g. (NeighbourhoodWatchGroup.id' g, created_by g))
         (neighbourhood_watch_groups_table db) @ [(gid, userId)]
   \<and> group_members_table (snd (handleCreateGroup userId groupReply memberError (s, db)))
     = (case (groupReply, memberError) of
          (Inr (g, c, u), None) \<Rightarrow>
            group_members_table db @
              [\<lparr>group_id = g, group_member_insert.user_id = userId, role = ''admin''\<rparr>]
        | _ \<Rightarrow> group_members_table db)
   \<and> group_members_table (snd (handleJoinGroup userId groupId None (s, db)))
     = group_members_table db @
         [\<lparr>group_id = groupId, group_member_insert.user_id = userId, role = ''member''\<rparr>]
   \<and> group_members_table (snd (handleJoinGroup userId groupId (Some m) (s, db)))
     = group_members_table db"
  by (simp add: handleCreateGroup_def handleJoinGroup_def Let_def
        split: sum.split option.split prod.split)


end
